theory Spec2Isabelle
  imports Complex_Main
begin

section \<open>The recommender notebook (Recommendation.ipynb)\<close>

text \<open>
  The notebook defines a feature mixer (\<open>mix_embeddings\<close>), two GraphSAGE layers
  (\<open>GraphSageConv\<close>, \<open>GraphSageConvWithSampling\<close>), the two models built from them and
  the first lines of a minibatch training loop.  Each Python function becomes a HOL
  function; every exception the Python raises is a value \<open>Inl e\<close> of the result.
\<close>

subsection \<open>Exceptions\<close>

datatype error =
    NameError
  | UnboundLocalError
  | KeyError
  | IndexError
  | TypeError
  | RuntimeError
  | AssertionError

subsection \<open>Tensor entries\<close>

text \<open>
  A tensor entry is a floating-point number.  Rounding, overflow and the sign of zero
  are not modelled: a finite entry is a real number and arithmetic on finite entries is
  exact.  The special values are modelled, since the layers divide: a non-zero number
  over zero is an infinity, zero over zero is not-a-number, and not-a-number spreads
  through every operation.
\<close>

datatype fl = Fin real | PInf | NInf | NaN

fun is_fin :: "fl \<Rightarrow> bool" where
  "is_fin (Fin a) = True"
| "is_fin x = False"

fun is_nan :: "fl \<Rightarrow> bool" where
  "is_nan NaN = True"
| "is_nan x = False"

fun is_neg :: "fl \<Rightarrow> bool" where
  "is_neg (Fin a) = (a < 0)"
| "is_neg NInf = True"
| "is_neg x = False"

definition inf_signed :: "bool \<Rightarrow> fl" where
  "inf_signed neg = (if neg then NInf else PInf)"

fun fl_neg :: "fl \<Rightarrow> fl" where
  "fl_neg (Fin a) = Fin (- a)"
| "fl_neg PInf = NInf"
| "fl_neg NInf = PInf"
| "fl_neg NaN = NaN"

fun fl_add :: "fl \<Rightarrow> fl \<Rightarrow> fl" where
  "fl_add (Fin a) (Fin b) = Fin (a + b)"
| "fl_add NaN y = NaN"
| "fl_add x NaN = NaN"
| "fl_add PInf NInf = NaN"
| "fl_add NInf PInf = NaN"
| "fl_add PInf y = PInf"
| "fl_add x PInf = PInf"
| "fl_add NInf y = NInf"
| "fl_add x NInf = NInf"

definition fl_sub :: "fl \<Rightarrow> fl \<Rightarrow> fl" where
  "fl_sub x y = fl_add x (fl_neg y)"

fun fl_mul :: "fl \<Rightarrow> fl \<Rightarrow> fl" where
  "fl_mul (Fin a) (Fin b) = Fin (a * b)"
| "fl_mul NaN y = NaN"
| "fl_mul x NaN = NaN"
| "fl_mul x y = (if x = Fin 0 \<or> y = Fin 0 then NaN else inf_signed (is_neg x \<noteq> is_neg y))"

fun fl_div :: "fl \<Rightarrow> fl \<Rightarrow> fl" where
  "fl_div (Fin a) (Fin b) =
     (if b = 0 then (if a = 0 then NaN else inf_signed (a < 0)) else Fin (a / b))"
| "fl_div NaN y = NaN"
| "fl_div x NaN = NaN"
| "fl_div (Fin a) y = Fin 0"
| "fl_div x (Fin b) = inf_signed (is_neg x \<noteq> (b < 0))"
| "fl_div x y = NaN"

fun fl_abs :: "fl \<Rightarrow> fl" where
  "fl_abs (Fin a) = Fin \<bar>a\<bar>"
| "fl_abs NaN = NaN"
| "fl_abs x = PInf"

fun fl_sqrt :: "fl \<Rightarrow> fl" where
  "fl_sqrt (Fin a) = (if a < 0 then NaN else Fin (sqrt a))"
| "fl_sqrt PInf = PInf"
| "fl_sqrt x = NaN"

text \<open>\<open>x.clamp(min=m)\<close>: the larger of \<open>x\<close> and \<open>m\<close>; not-a-number stays.\<close>

fun clamp_min :: "real \<Rightarrow> fl \<Rightarrow> fl" where
  "clamp_min m (Fin a) = Fin (max a m)"
| "clamp_min m PInf = PInf"
| "clamp_min m NInf = Fin m"
| "clamp_min m NaN = NaN"

text \<open>\<open>F.leaky_relu\<close> with its default negative slope \<open>0.01\<close>.\<close>

fun leaky_relu :: "fl \<Rightarrow> fl" where
  "leaky_relu (Fin a) = (if 0 \<le> a then Fin a else Fin (a / 100))"
| "leaky_relu x = x"

text \<open>\<open>x != y\<close> on entries: not-a-number differs from everything, itself included.\<close>

fun fl_ne :: "fl \<Rightarrow> fl \<Rightarrow> bool" where
  "fl_ne NaN y = True"
| "fl_ne x NaN = True"
| "fl_ne x y = (x \<noteq> y)"

subsection \<open>Tensors\<close>

text \<open>
  The tensors of the notebook have one, two or three axes and are 64-bit integers or
  32-bit floats; a tensor of any other element type (the boolean edge masks, say) is
  \<open>OtherT\<close>.  Axis 0 of a node tensor is the node.  A tensor with three axes carries the
  size of its last axis, which its rows do not show when axis 1 is empty.
\<close>

datatype tensor =
    IntT1 "int list"
  | IntT2 "int list list"
  | FloatT1 "fl list"
  | FloatT2 "fl list list"
  | FloatT3 nat "fl list list list"
  | OtherT

datatype dtype = Int64 | Float32 | OtherDtype

fun dtype_of :: "tensor \<Rightarrow> dtype" where
  "dtype_of (IntT1 v) = Int64"
| "dtype_of (IntT2 m) = Int64"
| "dtype_of (FloatT1 v) = Float32"
| "dtype_of (FloatT2 m) = Float32"
| "dtype_of (FloatT3 n c) = Float32"
| "dtype_of OtherT = OtherDtype"

definition fl_sum :: "fl list \<Rightarrow> fl" where
  "fl_sum xs = foldr fl_add xs (Fin 0)"

definition vadd :: "fl list \<Rightarrow> fl list \<Rightarrow> fl list" where
  "vadd u v = map2 fl_add u v"

definition vsub :: "fl list \<Rightarrow> fl list \<Rightarrow> fl list" where
  "vsub u v = map2 fl_sub u v"

text \<open>The sum of a list of vectors of \<open>n\<close> entries (the zero vector for no vector).\<close>

definition vsum :: "nat \<Rightarrow> fl list list \<Rightarrow> fl list" where
  "vsum n vs = foldr vadd vs (replicate n (Fin 0))"

text \<open>A dictionary with string keys; a missing key raises KeyError.\<close>

definition getitem :: "(string \<rightharpoonup> 'a) \<Rightarrow> string \<Rightarrow> error + 'a" where
  "getitem d k = (case d k of None \<Rightarrow> Inl KeyError | Some v \<Rightarrow> Inr v)"

text \<open>
  \<open>nn.Linear(in_features, out_features)\<close>: one weight row and one bias entry per output.
  Applied to a vector whose length is not \<open>in_features\<close> it raises RuntimeError.
\<close>

record linear =
  in_features :: nat
  weight :: "fl list list"
  bias :: "fl list"

definition dot :: "fl list \<Rightarrow> fl list \<Rightarrow> fl" where
  "dot u v = fl_sum (map2 fl_mul u v)"

definition linear_vec :: "linear \<Rightarrow> fl list \<Rightarrow> fl list" where
  "linear_vec W x = map2 (\<lambda>row b. fl_add (dot x row) b) (weight W) (bias W)"

definition linear_rows :: "linear \<Rightarrow> fl list list \<Rightarrow> error + fl list list" where
  "linear_rows W m =
     (if list_all (\<lambda>x. length x = in_features W) m then Inr (map (linear_vec W) m)
      else Inl RuntimeError)"

subsection \<open>The layers\<close>

text \<open>
  A node function receives \<open>nodes\<close>, whose \<open>data\<close> is a dictionary of tensors with one
  row per node of the batch: \<open>h_agg\<close> and \<open>w\<close> are the sums that the reduce functions
  \<open>FN.sum('h', 'h_agg')\<close> and \<open>FN.sum('one', 'w')\<close> computed over the incoming messages.
  A field whose tensor has not the axes the layer indexes is answered with
  RuntimeError.
\<close>

type_synonym nodes = "string \<rightharpoonup> tensor"

definition as_matrix :: "tensor \<Rightarrow> error + fl list list" where
  "as_matrix t = (case t of FloatT2 m \<Rightarrow> Inr m | _ \<Rightarrow> Inl RuntimeError)"

definition as_vector :: "tensor \<Rightarrow> error + fl list" where
  "as_vector t = (case t of FloatT1 v \<Rightarrow> Inr v | _ \<Rightarrow> Inl RuntimeError)"

text \<open>
  Two operands are paired along an axis entry by entry when the axis has the same size
  in both; a single entry is paired with every entry of the other operand; any other
  pair of sizes is a RuntimeError.  A matrix is the list of its rows, so the sizes of
  the second axis are compared row by row, and not at all for a matrix without rows.
\<close>

definition brows :: "'a list \<Rightarrow> 'b list \<Rightarrow> ('a \<times> 'b) list option" where
  "brows a b =
     (if length a = length b then Some (zip a b)
      else case a of
             [r] \<Rightarrow> Some (map (\<lambda>s. (r, s)) b)
           | _ \<Rightarrow> (case b of [s] \<Rightarrow> Some (map (\<lambda>r. (r, s)) a) | _ \<Rightarrow> None))"

definition bvec :: "(fl \<Rightarrow> fl \<Rightarrow> fl) \<Rightarrow> fl list \<Rightarrow> fl list \<Rightarrow> error + fl list" where
  "bvec f u v =
     (case brows u v of None \<Rightarrow> Inl RuntimeError | Some ps \<Rightarrow> Inr (map (\<lambda>(x, y). f x y) ps))"

fun collect :: "(error + 'a) list \<Rightarrow> error + 'a list" where
  "collect [] = Inr []"
| "collect (Inl e # rs) = Inl e"
| "collect (Inr x # rs) = (case collect rs of Inl e \<Rightarrow> Inl e | Inr xs \<Rightarrow> Inr (x # xs))"

definition broadcast2 ::
  "(fl \<Rightarrow> fl \<Rightarrow> fl) \<Rightarrow> fl list list \<Rightarrow> fl list list \<Rightarrow> error + fl list list" where
  "broadcast2 f a b =
     (case brows a b of
        None \<Rightarrow> Inl RuntimeError
      | Some ps \<Rightarrow> collect (map (\<lambda>(u, v). bvec f u v) ps))"

text \<open>
  \<open>a / w[:, None]\<close>: every entry of row \<open>i\<close> of \<open>a\<close> over entry \<open>i\<close> of \<open>w\<close>; a single
  row, or a single entry of \<open>w\<close>, is paired with all of the other operand.
\<close>

definition div_rows :: "fl list list \<Rightarrow> fl list \<Rightarrow> error + fl list list" where
  "div_rows a w =
     (if length a = length w then Inr (map2 (\<lambda>row d. map (\<lambda>x. fl_div x d) row) a w)
      else case brows a w of
             None \<Rightarrow> Inl RuntimeError
           | Some ps \<Rightarrow> Inr (map (\<lambda>(row, d). map (\<lambda>x. fl_div x d) row) ps))"

text \<open>Line 155 of \<open>GraphSageConv.forward\<close>: \<open>nodes.data['h_agg'] / nodes.data['w'][:, None]\<close>.\<close>

definition GraphSageConv_h_agg :: "nodes \<Rightarrow> error + fl list list" where
  "GraphSageConv_h_agg nodes =
     (case getitem nodes ''h_agg'' of Inl e \<Rightarrow> Inl e | Inr t_agg \<Rightarrow>
     (case getitem nodes ''w'' of Inl e \<Rightarrow> Inl e | Inr t_w \<Rightarrow>
     (case as_matrix t_agg of Inl e \<Rightarrow> Inl e | Inr a \<Rightarrow>
     (case as_vector t_w of Inl e \<Rightarrow> Inl e | Inr w \<Rightarrow> div_rows a w))))"

text \<open>
  \<open>GraphSageConv.forward\<close>.  After the division it reads \<open>nodes.data['h_x']\<close> and then
  evaluates \<open>troch.cat([h, h_agg, 1])\<close>; no cell binds the name \<open>troch\<close>, so the call
  raises NameError and the two lines after it are never reached.
\<close>

definition GraphSageConv_forward :: "linear \<Rightarrow> nodes \<Rightarrow> error + (string \<times> tensor) list" where
  "GraphSageConv_forward W nodes =
     (case GraphSageConv_h_agg nodes of Inl e \<Rightarrow> Inl e | Inr h_agg \<Rightarrow>
     (case getitem nodes ''h_x'' of Inl e \<Rightarrow> Inl e | Inr h \<Rightarrow>
        Inl NameError))"

text \<open>
  The two lines of \<open>GraphSageConv.forward\<close> behind the failing call, as they are written:
  \<open>h_new = F.leaky_relu(self.W(h_concat))\<close> and
  \<open>h_new / h_new.norm(1).clamp(min=1e-6)\<close>.  \<open>h_new.norm(1)\<close> is the norm with
  \<open>p = 1\<close> of the whole tensor, the sum of the absolute values of all its entries.
\<close>

definition norm_p1 :: "fl list list \<Rightarrow> fl" where
  "norm_p1 m = fl_sum (map fl_abs (concat m))"

definition GraphSageConv_normalize :: "fl list list \<Rightarrow> fl list list" where
  "GraphSageConv_normalize h_new =
     map (map (\<lambda>x. fl_div x (clamp_min (1 / 1000000) (norm_p1 h_new)))) h_new"

definition GraphSageConv_update :: "linear \<Rightarrow> fl list list \<Rightarrow> error + fl list list" where
  "GraphSageConv_update W h_concat =
     (case linear_rows W h_concat of Inl e \<Rightarrow> Inl e | Inr y \<Rightarrow>
        Inr (GraphSageConv_normalize (map (map leaky_relu) y)))"

text \<open>
  Modelled from the spec: \<open>safediv\<close> is called by \<open>GraphSageConvWithSampling.forward\<close>
  on lines 240 and 243 and defined in no cell of the notebook.  The spec describes the
  division of the mean as guarded against division by zero and that of the
  normalisation as clamped below a small epsilon (clamped, not just guarded).  One
  function serves both lines: here the divisor is clamped from below at epsilon, which
  guards against zero as well.  The spec names no value; the clamp of
  \<open>GraphSageConv.forward\<close>, \<open>1e-6\<close>, is taken.  The divisor has one entry per row
  (\<open>w[:, None]\<close>, \<open>keepdim=True\<close>).
\<close>

definition clamp_eps :: real where
  "clamp_eps = 1 / 1000000"

definition safediv :: "fl list list \<Rightarrow> fl list \<Rightarrow> error + fl list list" where
  "safediv a b = div_rows a (map (clamp_min clamp_eps) b)"

text \<open>\<open>h_new.norm(dim=1, keepdim=True)\<close>: the Euclidean norm of each row.\<close>

definition l2norm :: "fl list \<Rightarrow> fl" where
  "l2norm v = fl_sqrt (fl_sum (map (\<lambda>x. fl_mul x x) v))"

text \<open>Line 243: \<open>safediv(h_new, h_new.norm(dim=1, keepdim=True))\<close>.\<close>

definition l2_normalize :: "fl list list \<Rightarrow> error + fl list list" where
  "l2_normalize h_new = safediv h_new (map l2norm h_new)"

text \<open>
  \<open>h_agg - h\<close>: entry by entry for tensors of one shape; otherwise a single row or a
  single column is paired with all of the other operand.
\<close>

definition sub_rows :: "fl list list \<Rightarrow> fl list list \<Rightarrow> error + fl list list" where
  "sub_rows a b =
     (if map length a = map length b then Inr (map2 vsub a b) else broadcast2 fl_sub a b)"

text \<open>\<open>torch.cat([h, h_agg], 1)\<close>: row \<open>i\<close> of \<open>h\<close> followed by row \<open>i\<close> of \<open>h_agg\<close>.\<close>

definition cat1 :: "fl list list \<Rightarrow> fl list list \<Rightarrow> error + fl list list" where
  "cat1 a b = (if length a = length b then Inr (map2 (@) a b) else Inl RuntimeError)"

text \<open>Line 240: \<open>safediv(h_agg - h, w - 1)\<close>, the mean of the neighbours without the self-loop.\<close>

definition corrected_mean ::
  "fl list list \<Rightarrow> fl list list \<Rightarrow> fl list \<Rightarrow> error + fl list list" where
  "corrected_mean h_agg h w =
     (case sub_rows h_agg h of Inl e \<Rightarrow> Inl e | Inr d \<Rightarrow>
        safediv d (map (\<lambda>x. fl_sub x (Fin 1)) w))"

text \<open>
  Lines 241 to 243: concatenate, transform, rectify and normalise.  The result is the
  dictionary the node function returns.
\<close>

definition GraphSageConvWithSampling_update ::
  "linear \<Rightarrow> fl list list \<Rightarrow> fl list list \<Rightarrow> error + (string \<times> tensor) list" where
  "GraphSageConvWithSampling_update W h h_agg =
     (case cat1 h h_agg of Inl e \<Rightarrow> Inl e | Inr h_concat \<Rightarrow>
     (case linear_rows W h_concat of Inl e \<Rightarrow> Inl e | Inr y \<Rightarrow>
     (case l2_normalize (map (map leaky_relu) y) of Inl e \<Rightarrow> Inl e | Inr h_out \<Rightarrow>
        Inr [(''h'', FloatT2 h_out)])))"

text \<open>\<open>GraphSageConvWithSampling.forward\<close>.\<close>

definition GraphSageConvWithSampling_forward ::
  "linear \<Rightarrow> nodes \<Rightarrow> error + (string \<times> tensor) list" where
  "GraphSageConvWithSampling_forward W nodes =
     (case getitem nodes ''h_agg'' of Inl e \<Rightarrow> Inl e | Inr t_agg \<Rightarrow>
     (case getitem nodes ''h'' of Inl e \<Rightarrow> Inl e | Inr t_h \<Rightarrow>
     (case getitem nodes ''w'' of Inl e \<Rightarrow> Inl e | Inr t_w \<Rightarrow>
     (case as_matrix t_agg of Inl e \<Rightarrow> Inl e | Inr h_agg \<Rightarrow>
     (case as_matrix t_h of Inl e \<Rightarrow> Inl e | Inr h \<Rightarrow>
     (case as_vector t_w of Inl e \<Rightarrow> Inl e | Inr w \<Rightarrow>
     (case corrected_mean h_agg h w of Inl e \<Rightarrow> Inl e | Inr h_agg' \<Rightarrow>
        GraphSageConvWithSampling_update W h h_agg')))))))"




subsection \<open>Modules\<close>

text \<open>
  A module is what \<open>self.emb[key]\<close> and \<open>self.proj[key]\<close> are called as: a function from a
  tensor to a tensor that may raise.
\<close>

type_synonym module = "tensor \<Rightarrow> error + tensor"

fun tensor_dim :: "tensor \<Rightarrow> nat" where
  "tensor_dim (IntT1 v) = 1"
| "tensor_dim (IntT2 m) = 2"
| "tensor_dim (FloatT1 v) = 1"
| "tensor_dim (FloatT2 m) = 2"
| "tensor_dim (FloatT3 n c) = 3"
| "tensor_dim OtherT = 0"

text \<open>
  \<open>nn.Embedding\<close> with the weight table \<open>table\<close> of rows of \<open>F\<close> entries: every index
  is replaced by its row; an index outside the table is an IndexError, a tensor that
  is not of integers a RuntimeError.
\<close>

definition in_table :: "fl list list \<Rightarrow> int \<Rightarrow> bool" where
  "in_table table i = (0 \<le> i \<and> i < int (length table))"

definition row_of :: "fl list list \<Rightarrow> int \<Rightarrow> fl list" where
  "row_of table i = table ! nat i"

fun nn_Embedding :: "nat \<Rightarrow> fl list list \<Rightarrow> module" where
  "nn_Embedding F table (IntT1 idx) =
     (if list_all (in_table table) idx then Inr (FloatT2 (map (row_of table) idx))
      else Inl IndexError)"
| "nn_Embedding F table (IntT2 idx) =
     (if list_all (list_all (in_table table)) idx
      then Inr (FloatT3 F (map (map (row_of table)) idx))
      else Inl IndexError)"
| "nn_Embedding F table t = Inl RuntimeError"



text \<open>\<open>nn.Linear\<close> applied along the last axis.\<close>

fun nn_Linear :: "linear \<Rightarrow> module" where
  "nn_Linear W (FloatT1 v) =
     (if length v = in_features W then Inr (FloatT1 (linear_vec W v)) else Inl RuntimeError)"
| "nn_Linear W (FloatT2 m) =
     (case linear_rows W m of Inl e \<Rightarrow> Inl e | Inr y \<Rightarrow> Inr (FloatT2 y))"
| "nn_Linear W (FloatT3 n c) =
     (if list_all (list_all (\<lambda>x. length x = in_features W)) c
      then Inr (FloatT3 (length (weight W)) (map (map (linear_vec W)) c))
      else Inl RuntimeError)"
| "nn_Linear W t = Inl RuntimeError"

text \<open>
  \<open>result.mean(1)\<close> of a tensor with three axes: for every node the sum of its rows
  over their number, a division of zero by zero when there is no row.
\<close>

definition mean_rows :: "nat \<Rightarrow> fl list list \<Rightarrow> fl list" where
  "mean_rows F rows = map (\<lambda>s. fl_div s (Fin (real (length rows)))) (vsum F rows)"

fun tensor_mean1 :: "tensor \<Rightarrow> error + tensor" where
  "tensor_mean1 (FloatT3 F c) = Inr (FloatT2 (map (mean_rows F) c))"
| "tensor_mean1 t = Inl RuntimeError"

text \<open>
  The sum of two tensors of the same shape, and \<open>torch.stack(ts, 0).sum(0)\<close>: the list
  must not be empty and all its tensors must have one shape.
\<close>

fun tensor_add :: "tensor \<Rightarrow> tensor \<Rightarrow> error + tensor" where
  "tensor_add (FloatT1 a) (FloatT1 b) =
     (if length a = length b then Inr (FloatT1 (vadd a b)) else Inl RuntimeError)"
| "tensor_add (FloatT2 a) (FloatT2 b) =
     (if map length a = map length b then Inr (FloatT2 (map2 vadd a b)) else Inl RuntimeError)"
| "tensor_add (FloatT3 n a) (FloatT3 n' b) =
     (if n = n' \<and> map (map length) a = map (map length) b
      then Inr (FloatT3 n (map2 (map2 vadd) a b)) else Inl RuntimeError)"
| "tensor_add s t = Inl RuntimeError"

fun add_all :: "tensor \<Rightarrow> tensor list \<Rightarrow> error + tensor" where
  "add_all acc [] = Inr acc"
| "add_all acc (t # ts) =
     (case tensor_add acc t of Inl e \<Rightarrow> Inl e | Inr acc' \<Rightarrow> add_all acc' ts)"

fun stack_sum :: "tensor list \<Rightarrow> error + tensor" where
  "stack_sum [] = Inl RuntimeError"
| "stack_sum (t # ts) = add_all t ts"

text \<open>
  \<open>a + b\<close> as the last line of the feature mixer uses it.  Float tensors of one or two
  axes are added entry by entry, a vector counting as a matrix of one row and a single
  row or column being paired with all of the other operand; tensors of three axes are
  added when they have one shape.  Any other pair is answered with RuntimeError
  (PyTorch converts integers and stretches tensors of three axes as well).
\<close>

definition as_float1 :: "error + fl list \<Rightarrow> error + tensor" where
  "as_float1 r = (case r of Inl e \<Rightarrow> Inl e | Inr v \<Rightarrow> Inr (FloatT1 v))"

definition as_float2 :: "error + fl list list \<Rightarrow> error + tensor" where
  "as_float2 r = (case r of Inl e \<Rightarrow> Inl e | Inr m \<Rightarrow> Inr (FloatT2 m))"

fun tensor_plus :: "tensor \<Rightarrow> tensor \<Rightarrow> error + tensor" where
  "tensor_plus (FloatT1 a) (FloatT1 b) = as_float1 (bvec fl_add a b)"
| "tensor_plus (FloatT2 a) (FloatT1 b) = as_float2 (broadcast2 fl_add a [b])"
| "tensor_plus (FloatT1 a) (FloatT2 b) = as_float2 (broadcast2 fl_add [a] b)"
| "tensor_plus (FloatT2 a) (FloatT2 b) = as_float2 (broadcast2 fl_add a b)"
| "tensor_plus s t = tensor_add s t"

subsection \<open>The graph and the feature mixer\<close>

text \<open>
  Of the graph the notebook reads and writes \<open>G.ndata\<close>, the node features in the order
  in which they were first assigned, and \<open>G.number_of_nodes()\<close>.
  \<open>G.node_attr_schemes()\<close> has one entry per feature, in that order, with the element
  type of the feature's tensor; so the loop over the schemes is a loop over \<open>G.ndata\<close>.
\<close>

record graph =
  number_of_nodes :: nat
  ndata :: "(string \<times> tensor) list"

fun setitem :: "(string \<times> 'a) list \<Rightarrow> string \<Rightarrow> 'a \<Rightarrow> (string \<times> 'a) list" where
  "setitem [] k v = [(k, v)]"
| "setitem ((k', v') # d) k v = (if k' = k then (k, v) # d else (k', v') # setitem d k v)"

record modules =
  emb :: "string \<rightharpoonup> module"
  proj :: "string \<rightharpoonup> module"

text \<open>
  The integer branch of the loop, lines 134 to 136: the table is applied, and a result
  with three axes (a bag of words) is averaged over axis 1.
\<close>

definition categorical_repr :: "module \<Rightarrow> tensor \<Rightarrow> error + tensor" where
  "categorical_repr m value =
     (case m value of Inl e \<Rightarrow> Inl e | Inr result \<Rightarrow>
        if tensor_dim result = 3 then tensor_mean1 result else Inr result)"

text \<open>
  The loop of \<open>mix_embeddings\<close>.  The body reads \<open>self.emb\<close> and \<open>self.proj\<close>, not the
  parameters \<open>emb\<close> and \<open>proj\<close>; \<open>self\<close> is a free name of the function, looked up in the
  global namespace.  The first argument of the model is the binding of that name:
  \<open>None\<close> when it is unbound, as in the notebook, where no cell binds it and the read
  raises NameError.  The local \<open>result\<close> keeps its value from one round to the next; a feature
  that is neither integer nor float appends the previous \<open>result\<close> again, or raises
  UnboundLocalError when there is none.
\<close>

fun mix_loop ::
  "modules option \<Rightarrow> (string \<times> tensor) list \<Rightarrow> tensor option \<Rightarrow> tensor list
     \<Rightarrow> error + tensor list" where
  "mix_loop global_self [] result extra_repr = Inr extra_repr"
| "mix_loop global_self ((key, value) # rest) result extra_repr =
     (case dtype_of value of
        Int64 \<Rightarrow>
          (case global_self of None \<Rightarrow> Inl NameError | Some s \<Rightarrow>
          (case getitem (emb s) key of Inl e \<Rightarrow> Inl e | Inr m \<Rightarrow>
          (case categorical_repr m value of Inl e \<Rightarrow> Inl e | Inr r \<Rightarrow>
             mix_loop global_self rest (Some r) (extra_repr @ [r]))))
      | Float32 \<Rightarrow>
          (case global_self of None \<Rightarrow> Inl NameError | Some s \<Rightarrow>
          (case getitem (proj s) key of Inl e \<Rightarrow> Inl e | Inr m \<Rightarrow>
          (case m value of Inl e \<Rightarrow> Inl e | Inr r \<Rightarrow>
             mix_loop global_self rest (Some r) (extra_repr @ [r]))))
      | OtherDtype \<Rightarrow>
          (case result of None \<Rightarrow> Inl UnboundLocalError | Some r \<Rightarrow>
             mix_loop global_self rest result (extra_repr @ [r])))"

text \<open>
  \<open>mix_embeddings(G, emb, proj)\<close>.  The graph is changed by the last line only, so an
  exception leaves it as it was.
\<close>

definition mix_embeddings ::
  "modules option \<Rightarrow> graph \<Rightarrow> (string \<rightharpoonup> module) \<Rightarrow> (string \<rightharpoonup> module) \<Rightarrow> error + graph" where
  "mix_embeddings global_self G emb_arg proj_arg =
     (case mix_loop global_self (ndata G) None [] of
        Inl e \<Rightarrow> Inl e
      | Inr extra_repr \<Rightarrow>
     (case getitem (map_of (ndata G)) ''h'' of Inl e \<Rightarrow> Inl e | Inr h \<Rightarrow>
     (case stack_sum extra_repr of Inl e \<Rightarrow> Inl e | Inr s \<Rightarrow>
     (case tensor_plus h s of Inl e \<Rightarrow> Inl e | Inr h' \<Rightarrow>
        Inr (G\<lparr>ndata := setitem (ndata G) ''h'' h'\<rparr>)))))"

subsection \<open>The models\<close>



text \<open>
  The parameters of a model: the tables and projections of the features, the weight of
  \<open>node_emb\<close> and one linear layer \<open>W\<close> per \<open>GraphSageConv\<close> in \<open>convs\<close> (both models
  fill \<open>convs\<close> with \<open>GraphSageConv\<close>).
\<close>

record model = modules +
  feature_size :: nat
  num_layers :: nat
  convs :: "linear list"
  node_emb :: "fl list list"

text \<open>
  The first two lines of either \<open>forward\<close>: \<open>G.ndata['h']\<close> becomes the rows of
  \<open>node_emb\<close> for the nodes \<open>0, \<dots>, N - 1\<close> and \<open>G.ndata['one']\<close> a vector of ones.
\<close>

definition assign_embeddings :: "model \<Rightarrow> graph \<Rightarrow> error + graph" where
  "assign_embeddings mdl G =
     (case nn_Embedding (feature_size mdl) (node_emb mdl)
             (IntT1 (map int [0..<number_of_nodes G])) of
        Inl e \<Rightarrow> Inl e
      | Inr h \<Rightarrow>
          Inr (G\<lparr>ndata := setitem (setitem (ndata G) ''h'' h) ''one''
                              (FloatT1 (replicate (number_of_nodes G) (Fin 1)))\<rparr>))"

text \<open>
  \<open>G.update_all(msg_funcs, reduce_funcs, conv)\<close> is a call into the graph library: it
  is a parameter here, a function of the node function and the graph that returns
  the graph it leaves behind and the exception it raised, if any.
\<close>

type_synonym node_func = "nodes \<Rightarrow> error + (string \<times> tensor) list"

type_synonym update_all = "node_func \<Rightarrow> graph \<Rightarrow> error option \<times> graph"

text \<open>\<open>for i in range(self.num_layers): self.G.update_all(\<dots>, self.convs[i])\<close>.\<close>

fun update_layers :: "update_all \<Rightarrow> linear list \<Rightarrow> nat list \<Rightarrow> graph \<Rightarrow> error option \<times> graph" where
  "update_layers ua cs [] G = (None, G)"
| "update_layers ua cs (i # is) G =
     (if i < length cs then
        (case ua (GraphSageConv_forward (cs ! i)) G of
           (Some e, G') \<Rightarrow> (Some e, G')
         | (None, G') \<Rightarrow> update_layers ua cs is G')
      else (Some IndexError, G))"

text \<open>
  \<open>GraphSage.forward\<close>.  The result is what the call returns or raises, and the graph as
  the call leaves it.  \<open>mdl\<close> is the model the method is called on; \<open>global_self\<close> is
  the binding of the global name \<open>self\<close>, which \<open>mix_embeddings\<close> reads.
\<close>

definition GraphSage_forward ::
  "modules option \<Rightarrow> update_all \<Rightarrow> model \<Rightarrow> graph \<Rightarrow> (error + tensor) \<times> graph" where
  "GraphSage_forward global_self ua mdl G =
     (case assign_embeddings mdl G of Inl e \<Rightarrow> (Inl e, G) | Inr G1 \<Rightarrow>
     (case mix_embeddings global_self G1 (emb mdl) (proj mdl) of
        Inl e \<Rightarrow> (Inl e, G1)
      | Inr G2 \<Rightarrow>
     (case update_layers ua (convs mdl) [0..<num_layers mdl] G2 of
        (Some e, G3) \<Rightarrow> (Inl e, G3)
      | (None, G3) \<Rightarrow> (getitem (map_of (ndata G3)) ''h'', G3))))"

text \<open>
  The NodeFlow \<open>nf\<close> belongs to the graph library too.  Its methods are parameters:
  \<open>copy_from_parent\<close> reads the graph, \<open>block_compute\<close> runs one block with a node
  function, \<open>last_layer_h\<close> is \<open>nf.layers[-1].data['h']\<close>.  None of them writes to the
  graph.
\<close>

record 'nf nodeflow_ops =
  copy_from_parent :: "graph \<Rightarrow> 'nf \<Rightarrow> error + 'nf"
  num_blocks :: "'nf \<Rightarrow> nat"
  block_compute :: "nat \<Rightarrow> node_func \<Rightarrow> 'nf \<Rightarrow> error + 'nf"
  last_layer_h :: "'nf \<Rightarrow> error + tensor"

text \<open>\<open>for i in range(nf.num_blocks): nf.block_compute(i, self.msg, self.red, self.convs[i])\<close>.\<close>

fun compute_blocks :: "'nf nodeflow_ops \<Rightarrow> linear list \<Rightarrow> nat list \<Rightarrow> 'nf \<Rightarrow> error + 'nf" where
  "compute_blocks ops cs [] nf = Inr nf"
| "compute_blocks ops cs (i # is) nf =
     (if i < length cs then
        (case block_compute ops i (GraphSageConv_forward (cs ! i)) nf of
           Inl e \<Rightarrow> Inl e
         | Inr nf' \<Rightarrow> compute_blocks ops cs is nf')
      else Inl IndexError)"

text \<open>
  \<open>(result != result).sum()\<close>: the number of entries that differ from themselves.  The
  entries of an integer tensor never do.
\<close>

definition count_ne_self :: "fl list \<Rightarrow> nat" where
  "count_ne_self v = length (filter (\<lambda>x. fl_ne x x) v)"

fun ne_self_sum :: "tensor \<Rightarrow> nat" where
  "ne_self_sum (FloatT1 v) = count_ne_self v"
| "ne_self_sum (FloatT2 m) = count_ne_self (concat m)"
| "ne_self_sum (FloatT3 n c) = count_ne_self (concat (concat c))"
| "ne_self_sum t = 0"

text \<open>
  \<open>GraphSageWithSampling.forward\<close> up to line 291, where \<open>result\<close> is read from the last
  layer; the parameter \<open>h_emb\<close> is not used.
\<close>

definition final_layer_output ::
  "modules option \<Rightarrow> 'nf nodeflow_ops \<Rightarrow> model \<Rightarrow> 'nf \<Rightarrow> tensor \<Rightarrow> graph
     \<Rightarrow> (error + tensor) \<times> graph" where
  "final_layer_output global_self ops mdl nf h_emb G =
     (case assign_embeddings mdl G of Inl e \<Rightarrow> (Inl e, G) | Inr G1 \<Rightarrow>
     (case mix_embeddings global_self G1 (emb mdl) (proj mdl) of
        Inl e \<Rightarrow> (Inl e, G1)
      | Inr G2 \<Rightarrow>
     (case copy_from_parent ops G2 nf of Inl e \<Rightarrow> (Inl e, G2) | Inr nf1 \<Rightarrow>
     (case compute_blocks ops (convs mdl) [0..<num_blocks ops nf1] nf1 of
        Inl e \<Rightarrow> (Inl e, G2)
      | Inr nf2 \<Rightarrow> (last_layer_h ops nf2, G2)))))"

text \<open>
  \<open>GraphSageWithSampling.forward\<close>: the lines above, then
  \<open>assert (result != result).sum() == 0\<close> and \<open>return result\<close>.
\<close>

definition GraphSageWithSampling_forward ::
  "modules option \<Rightarrow> 'nf nodeflow_ops \<Rightarrow> model \<Rightarrow> 'nf \<Rightarrow> tensor \<Rightarrow> graph
     \<Rightarrow> (error + tensor) \<times> graph" where
  "GraphSageWithSampling_forward global_self ops mdl nf h_emb G =
     (case final_layer_output global_self ops mdl nf h_emb G of
        (Inl e, G') \<Rightarrow> (Inl e, G')
      | (Inr result, G') \<Rightarrow>
          (if ne_self_sum result = 0 then Inr result else Inl AssertionError, G'))"

text \<open>A tensor has a not-a-number entry.\<close>

fun has_nan :: "tensor \<Rightarrow> bool" where
  "has_nan (FloatT1 v) = list_ex is_nan v"
| "has_nan (FloatT2 m) = list_ex (list_ex is_nan) m"
| "has_nan (FloatT3 n c) = list_ex (list_ex (list_ex is_nan)) c"
| "has_nan t = False"

text \<open>Every entry of a matrix is a finite number.\<close>

definition finite_rows :: "fl list list \<Rightarrow> bool" where
  "finite_rows m = list_all (list_all is_fin) m"

text \<open>
  The Euclidean normalisation of a row in exact arithmetic: the row over its norm, the
  norm clamped from below at epsilon.
\<close>

definition sumsq :: "real list \<Rightarrow> real" where
  "sumsq r = sum_list (map (\<lambda>x. x * x) r)"

definition normalized :: "real list \<Rightarrow> real list" where
  "normalized r = map (\<lambda>x. x / max (sqrt (sumsq r)) clamp_eps) r"

text \<open>The rows on which the clamp has no effect: the zero row and the rows of norm epsilon or more.\<close>

definition unclamped :: "real list \<Rightarrow> bool" where
  "unclamped r = (sumsq r = 0 \<or> clamp_eps \<le> sqrt (sumsq r))"

subsection \<open>The training loop: one epoch's seed batches\<close>

text \<open>
  A name of the notebook's global namespace is unbound, bound to a Python integer, or
  bound to a one-dimensional integer tensor.  \<open>shuffle_idx\<close> is read on the first line
  of the loop body before any cell assigns it.
\<close>

datatype pyval = PyInt int | PyTensor "nat list"

text \<open>
  \<open>torch.randperm(n)\<close> wants an integer; the permutation it draws is the value of the
  random source \<open>rng\<close> at \<open>n\<close>.  An unbound argument is a NameError, a tensor argument a
  TypeError.
\<close>

definition randperm :: "(nat \<Rightarrow> nat list) \<Rightarrow> pyval option \<Rightarrow> error + nat list" where
  "randperm rng v =
     (case v of
        None \<Rightarrow> Inl NameError
      | Some (PyTensor t) \<Rightarrow> Inl TypeError
      | Some (PyInt n) \<Rightarrow> if n < 0 then Inl RuntimeError else Inr (rng (nat n)))"

text \<open>\<open>t[idx]\<close> for an index tensor: every index must be in range.\<close>

definition index_select :: "'a list \<Rightarrow> nat list \<Rightarrow> error + 'a list" where
  "index_select t idx =
     (if list_all (\<lambda>i. i < length t) idx then Inr (map (\<lambda>i. t ! i) idx) else Inl IndexError)"

text \<open>
  \<open>t.split(n)\<close>: consecutive chunks of \<open>n\<close> elements, the last one shorter; an empty
  tensor gives one empty chunk, and a chunk size of zero is an error for any other.
\<close>

function chunks :: "nat \<Rightarrow> 'a list \<Rightarrow> 'a list list" where
  "chunks n xs = (if n = 0 \<or> xs = [] then [] else take n xs # chunks n (drop n xs))"
  by pat_completeness auto
termination
  by (relation "measure (\<lambda>(n, xs). length xs)") auto

declare chunks.simps [simp del]

definition tensor_split :: "'a list \<Rightarrow> nat \<Rightarrow> error + 'a list list" where
  "tensor_split t n =
     (if t = [] then Inr [[]]
      else if n = 0 then Inl RuntimeError
      else Inr (chunks n t))"

text \<open>
  The body of \<open>for epoch in range(50)\<close> up to the construction of the sampler, which is
  handed \<open>seed_nodes\<close>.  The result is the new binding of \<open>shuffle_idx\<close> and
  \<open>seed_nodes\<close>.  \<open>src_shuffled\<close> and \<open>dst_shuffled\<close> are computed and never read: the
  batches are cut from \<open>src\<close> and \<open>dst\<close>.
\<close>

definition epoch_body ::
  "(nat \<Rightarrow> nat list) \<Rightarrow> pyval option \<Rightarrow> nat list \<Rightarrow> nat list \<Rightarrow> nat
     \<Rightarrow> error + (pyval option \<times> nat list list)" where
  "epoch_body rng shuffle_idx src dst batch_size =
     (case randperm rng shuffle_idx of
        Inl e \<Rightarrow> Inl e
      | Inr shuffle_idx' \<Rightarrow>
     (case index_select src shuffle_idx' of
        Inl e \<Rightarrow> Inl e
      | Inr src_shuffled \<Rightarrow>
     (case index_select dst shuffle_idx' of
        Inl e \<Rightarrow> Inl e
      | Inr dst_shuffled \<Rightarrow>
     (case tensor_split src batch_size of
        Inl e \<Rightarrow> Inl e
      | Inr src_batches \<Rightarrow>
     (case tensor_split dst batch_size of
        Inl e \<Rightarrow> Inl e
      | Inr dst_batches \<Rightarrow>
          Inr (Some (PyTensor shuffle_idx'),
               concat (map (\<lambda>(s, d). [s, d]) (zip src_batches dst_batches))))))))"

section \<open>Properties\<close>

subsection \<open>Arithmetic on finite entries\<close>

lemma sqrt_25: "sqrt 25 = 5"
  by (rule real_sqrt_unique) simp_all

lemma sqrt_144: "sqrt 144 = 12"
  by (rule real_sqrt_unique) simp_all




lemma fl_sum_Fin: "fl_sum (map Fin xs) = Fin (sum_list xs)"
  by (induction xs) (auto simp: fl_sum_def)




lemma clamp_eps_pos: "0 < clamp_eps"
  by (simp add: clamp_eps_def)

lemma clamp_eps_le_one: "clamp_eps \<le> 1"
  by (simp add: clamp_eps_def)


lemma safediv_rowwise:
  "safediv a (map g a)
     = Inr (map (\<lambda>r. map (\<lambda>y. fl_div y (clamp_min clamp_eps (g r))) r) a)"
  using map2_map_map [of "\<lambda>row d. map (\<lambda>x. fl_div x d) row" "\<lambda>r. r" a
                         "\<lambda>r. clamp_min clamp_eps (g r)"]
  by (simp add: safediv_def div_rows_def comp_def)

subsection \<open>The aggregation layers\<close>

text \<open>
  C1.  The claim: a node whose neighbour count is zero gets a defined, finite vector
  from either layer, with no division fault and no not-a-number.  \<open>GraphSageConv.forward\<close>
  divides \<open>h_agg\<close> by \<open>w\<close> with the plain division.  For a node without incoming
  messages both sums are zero and the quotient is not-a-number in every entry; the
  call then ends in KeyError at \<open>nodes.data['h_x']\<close>, a field no line of the notebook
  writes, or with that field present in NameError at \<open>troch.cat\<close>.
\<close>

theorem GraphSageConv_zero_count_nan:
  "GraphSageConv_h_agg
     [''h'' \<mapsto> FloatT2 [[Fin 1, Fin 2]], ''one'' \<mapsto> FloatT1 [Fin 1],
      ''h_agg'' \<mapsto> FloatT2 [[Fin 0, Fin 0]], ''w'' \<mapsto> FloatT1 [Fin 0]]
     = Inr [[NaN, NaN]]
   \<and> GraphSageConv_forward W
     [''h'' \<mapsto> FloatT2 [[Fin 1, Fin 2]], ''one'' \<mapsto> FloatT1 [Fin 1],
      ''h_agg'' \<mapsto> FloatT2 [[Fin 0, Fin 0]], ''w'' \<mapsto> FloatT1 [Fin 0]]
     = Inl KeyError
   \<and> GraphSageConv_forward W
     [''h_x'' \<mapsto> FloatT2 [[Fin 1, Fin 2]],
      ''h_agg'' \<mapsto> FloatT2 [[Fin 0, Fin 0]], ''w'' \<mapsto> FloatT1 [Fin 0]]
     = Inl NameError"
  by (simp add: GraphSageConv_forward_def GraphSageConv_h_agg_def getitem_def as_matrix_def
      as_vector_def div_rows_def)

text \<open>
  In general: the quotient of line 155 has no finite entry in the row of a node whose
  count is zero, and \<open>GraphSageConv.forward\<close> returns for no input.
\<close>

lemma fl_div_zero: "\<not> is_fin (fl_div x (Fin 0))"
  by (cases x) (auto simp: inf_signed_def)

lemma div_rows_zero:
  assumes "div_rows a w = Inr m" "i < length w" "i < length m" "w ! i = Fin 0"
  shows "list_all (\<lambda>x. \<not> is_fin x) (m ! i)"
proof (cases "length a = length w")
  case True
  then have "m = map2 (\<lambda>row d. map (\<lambda>x. fl_div x d) row) a w"
    using assms(1) by (simp add: div_rows_def)
  then show ?thesis
    using assms(2,4) True by (simp add: list_all_iff fl_div_zero)
next
  case False
  show ?thesis
  proof (cases "\<exists>r. a = [r]")
    case True
    then obtain r where "a = [r]" ..
    then have "m = map (\<lambda>d. map (\<lambda>x. fl_div x d) r) w"
      using assms(1) False by (auto simp: div_rows_def brows_def comp_def)
    then show ?thesis
      using assms(2,4) by (simp add: list_all_iff fl_div_zero)
  next
    case na: False
    then have "\<exists>s. w = [s]"
      using assms(1) False
      by (auto simp: div_rows_def brows_def split: list.splits)
    then obtain s where w: "w = [s]" ..
    then have "m = map (\<lambda>row. map (\<lambda>x. fl_div x s) row) a"
      using assms(1) False na by (auto simp: div_rows_def brows_def split: list.splits)
    then show ?thesis
      using assms(2,3,4) w by (simp add: list_all_iff fl_div_zero)
  qed
qed

lemma GraphSageConv_zero_count:
  assumes "GraphSageConv_h_agg nodes = Inr m"
    and "nodes ''w'' = Some (FloatT1 w)"
    and "i < length w" "i < length m" "w ! i = Fin 0"
  shows "list_all (\<lambda>x. \<not> is_fin x) (m ! i)"
proof -
  obtain a where "div_rows a w = Inr m"
    using assms(1,2)
    by (auto simp: GraphSageConv_h_agg_def getitem_def as_matrix_def as_vector_def
          split: option.splits tensor.splits)
  then show ?thesis
    using assms(3,4,5) by (rule div_rows_zero)
qed

lemma GraphSageConv_forward_raises: "\<exists>e. GraphSageConv_forward W nodes = Inl e"
  by (auto simp: GraphSageConv_forward_def split: sum.splits)

text \<open>
  The sampling layer on the same node, which the sampler gave a self-loop and nothing
  else: the sum is the node's own embedding, the count is one, and the clamped division
  yields the zero vector.
\<close>

lemma corrected_mean_isolated:
  "corrected_mean [[Fin 1, Fin 2]] [[Fin 1, Fin 2]] [Fin 1] = Inr [[Fin 0, Fin 0]]"
  by (simp add: corrected_mean_def sub_rows_def safediv_def div_rows_def vsub_def fl_sub_def
        clamp_eps_def)





text \<open>
  C3.  The claim: the update of either layer divides each transformed vector by its
  Euclidean norm, clamped from below, so that every embedding has norm one.  The last
  line of \<open>GraphSageConv.forward\<close> divides by \<open>h_new.norm(1)\<close>, the sum of the absolute
  values of all entries of the batch.  For the two rows \<open>(3, 4)\<close> and \<open>(0, 5)\<close> the
  divisor is twelve and both results have Euclidean norm \<open>5/12\<close>; the sampling layer
  divides each row by its own Euclidean norm.
\<close>

theorem GraphSageConv_normalize_not_unit:
  "GraphSageConv_normalize [[Fin 3, Fin 4], [Fin 0, Fin 5]]
     = [[Fin (1 / 4), Fin (1 / 3)], [Fin 0, Fin (5 / 12)]]
   \<and> map l2norm (GraphSageConv_normalize [[Fin 3, Fin 4], [Fin 0, Fin 5]])
     = [Fin (5 / 12), Fin (5 / 12)]
   \<and> l2_normalize [[Fin 3, Fin 4], [Fin 0, Fin 5]]
     = Inr [[Fin (3 / 5), Fin (4 / 5)], [Fin 0, Fin 1]]"
  by (simp add: GraphSageConv_normalize_def norm_p1_def fl_sum_def l2norm_def l2_normalize_def
        safediv_def div_rows_def real_sqrt_divide sqrt_25 sqrt_144 clamp_eps_def)

subsection \<open>Normalisation in the sampling layer\<close>

lemma sumsq_nonneg: "0 \<le> sumsq r"
  unfolding sumsq_def by (induction r) auto

lemma l2norm_Fin: "l2norm (map Fin r) = Fin (sqrt (sumsq r))"
proof -
  have "map (\<lambda>x. fl_mul x x) (map Fin r) = map Fin (map (\<lambda>x. x * x) r)"
    by simp
  then have "fl_sum (map (\<lambda>x. fl_mul x x) (map Fin r)) = Fin (sumsq r)"
    by (simp only: fl_sum_Fin sumsq_def)
  then show ?thesis
    using sumsq_nonneg [of r] by (simp add: l2norm_def)
qed

lemma normalize_entry_Fin:
  "fl_div (Fin x) (clamp_min clamp_eps (l2norm (map Fin r)))
     = Fin (x / max (sqrt (sumsq r)) clamp_eps)"
proof -
  have "0 < max (sqrt (sumsq r)) clamp_eps"
    using clamp_eps_pos by (rule less_max_iff_disj [THEN iffD2, OF disjI2])
  then have "max (sqrt (sumsq r)) clamp_eps \<noteq> 0"
    by linarith
  then show ?thesis
    by (simp add: l2norm_Fin)
qed

lemma l2_normalize_Fin:
  "l2_normalize (map (map Fin) m) = Inr (map (map Fin) (map normalized m))"
  unfolding l2_normalize_def safediv_rowwise
  by (simp add: comp_def normalize_entry_Fin normalized_def)

lemma sumsq_scale: "sumsq (map (\<lambda>x. x / d) r) = sumsq r / (d * d)"
  unfolding sumsq_def by (induction r) (auto simp: add_divide_distrib)

lemma sumsq_zero_entries: "sumsq r = 0 \<Longrightarrow> x \<in> set r \<Longrightarrow> x = 0"
proof (induction r)
  case Nil
  then show ?case by simp
next
  case (Cons y r)
  have "0 \<le> y * y" "0 \<le> sumsq r"
    by (simp_all add: sumsq_nonneg)
  moreover have "y * y + sumsq r = 0"
    using Cons.prems(1) by (simp add: sumsq_def)
  ultimately have "y * y = 0" "sumsq r = 0"
    by linarith+
  then show ?case
    using Cons by auto
qed

lemma sumsq_zero: "sumsq r = 0 \<Longrightarrow> normalized r = r"
proof -
  assume z: "sumsq r = 0"
  have "map (\<lambda>x. x / max (sqrt (sumsq r)) clamp_eps) r = map (\<lambda>x. x) r"
  proof (rule map_cong [OF refl])
    fix x
    assume "x \<in> set r"
    then have "x = 0"
      by (rule sumsq_zero_entries [OF z])
    then show "x / max (sqrt (sumsq r)) clamp_eps = x"
      by simp
  qed
  then show ?thesis
    by (simp add: normalized_def)
qed

lemma sumsq_normalized:
  assumes big: "clamp_eps \<le> sqrt (sumsq r)"
  shows "sumsq (normalized r) = 1"
proof -
  have pos: "0 < sqrt (sumsq r)"
    using big clamp_eps_pos by linarith
  then have spos: "0 < sumsq r"
    by simp
  have "normalized r = map (\<lambda>x. x / sqrt (sumsq r)) r"
    using big by (simp add: normalized_def max_def)
  then have "sumsq (normalized r) = sumsq r / (sqrt (sumsq r) * sqrt (sumsq r))"
    by (simp only: sumsq_scale)
  also have "sqrt (sumsq r) * sqrt (sumsq r) = sumsq r"
    using spos by simp
  finally show ?thesis
    using spos by simp
qed

lemma normalized_idem:
  assumes "unclamped r"
  shows "normalized (normalized r) = normalized r"
proof (cases "sumsq r = 0")
  case True
  then show ?thesis by (simp add: sumsq_zero)
next
  case False
  then have "clamp_eps \<le> sqrt (sumsq r)"
    using assms by (simp add: unclamped_def)
  then have "sumsq (normalized r) = 1"
    by (rule sumsq_normalized)
  then show ?thesis
    using clamp_eps_le_one by (simp add: normalized_def [of "normalized r"] max_def)
qed

lemma l2norm_single: "l2norm [Fin a] = Fin \<bar>a\<bar>"
  by (simp add: l2norm_def fl_sum_def)

text \<open>
  The step is not idempotent on every tensor.  A row whose norm is below epsilon is
  divided by epsilon the first time and by its new norm the second time: the row
  \<open>(1e-7)\<close> becomes \<open>(0.1)\<close> and then \<open>(1)\<close>.  A row with an infinite entry has an
  infinite norm: \<open>(1, \<infinity>)\<close> becomes \<open>(0, NaN)\<close> and then \<open>(NaN, NaN)\<close>.
\<close>

theorem l2_normalize_not_idempotent:
  "l2_normalize [[Fin (1 / 10000000)]] = Inr [[Fin (1 / 10)]]
   \<and> l2_normalize [[Fin (1 / 10)]] = Inr [[Fin 1]]
   \<and> l2_normalize [[Fin 1, PInf]] = Inr [[Fin 0, NaN]]
   \<and> l2_normalize [[Fin 0, NaN]] = Inr [[NaN, NaN]]"
  by (simp add: l2_normalize_def safediv_def div_rows_def l2norm_single clamp_eps_def)
     (simp add: l2norm_def fl_sum_def inf_signed_def)

text \<open>
  C8.  The normalisation step of the sampling layer, line 243, applied to a tensor of
  finite entries in which every row is zero or has a Euclidean norm of epsilon or more
  succeeds, and applied to its own result it returns that result.  In the exact
  arithmetic of this model the two results are equal, not only close.
\<close>

theorem l2_normalize_idempotent:
  assumes "list_all unclamped m"
  shows "\<exists>m'. l2_normalize (map (map Fin) m) = Inr m' \<and> l2_normalize m' = Inr m'"
proof -
  have "map normalized (map normalized m) = map normalized m"
    using assms by (simp add: list_all_iff normalized_idem)
  then have "l2_normalize (map (map Fin) (map normalized m))
               = Inr (map (map Fin) (map normalized m))"
    using l2_normalize_Fin [of "map normalized m"] by simp
  then show ?thesis
    using l2_normalize_Fin [of m] by blast
qed

text \<open>
  The rows \<open>(3, 4)\<close> and \<open>(0, 0)\<close>: the first becomes \<open>(3/5, 4/5)\<close>, the second stays, and
  the second application changes neither.
\<close>

theorem l2_normalize_idempotent_witness:
  "list_all unclamped [[3, 4], [0, 0]]
   \<and> l2_normalize [[Fin 3, Fin 4], [Fin 0, Fin 0]]
        = Inr [[Fin (3 / 5), Fin (4 / 5)], [Fin 0, Fin 0]]
   \<and> l2_normalize [[Fin (3 / 5), Fin (4 / 5)], [Fin 0, Fin 0]]
        = Inr [[Fin (3 / 5), Fin (4 / 5)], [Fin 0, Fin 0]]"
proof -
  have u: "list_all unclamped [[3, 4], [0, 0]]"
    by (simp add: unclamped_def sumsq_def sqrt_25 clamp_eps_def)
  show ?thesis
    using u l2_normalize_idempotent [OF u]
    by (simp add: l2_normalize_def safediv_def div_rows_def l2norm_def fl_sum_def sqrt_25
          clamp_eps_def real_sqrt_divide)
qed

text \<open>
  The clamped division of \<open>GraphSageConv.forward\<close> behaves in the same way on a tensor
  whose norm is below the clamp.
\<close>

lemma GraphSageConv_normalize_twice:
  "GraphSageConv_normalize [[Fin (1 / 10000000)]] = [[Fin (1 / 10)]]
   \<and> GraphSageConv_normalize [[Fin (1 / 10)]] = [[Fin 1]]"
  by (simp add: GraphSageConv_normalize_def norm_p1_def fl_sum_def)

subsection \<open>The sampling layer on finite input\<close>

lemma is_fin_add: "is_fin x \<Longrightarrow> is_fin y \<Longrightarrow> is_fin (fl_add x y)"
  by (cases x; cases y) simp_all

lemma is_fin_sub: "is_fin x \<Longrightarrow> is_fin y \<Longrightarrow> is_fin (fl_sub x y)"
  by (cases x; cases y) (simp_all add: fl_sub_def)

lemma is_fin_mul: "is_fin x \<Longrightarrow> is_fin y \<Longrightarrow> is_fin (fl_mul x y)"
  by (cases x; cases y) simp_all

lemma is_fin_div: "is_fin x \<Longrightarrow> is_fin d \<Longrightarrow> d \<noteq> Fin 0 \<Longrightarrow> is_fin (fl_div x d)"
  by (cases x; cases d) simp_all

lemma is_fin_leaky: "is_fin x \<Longrightarrow> is_fin (leaky_relu x)"
  by (cases x) simp_all

lemma is_fin_sum: "list_all is_fin v \<Longrightarrow> is_fin (fl_sum v)"
  by (induction v) (auto simp: fl_sum_def is_fin_add)

lemma finite_vec_repr: "list_all is_fin v \<Longrightarrow> \<exists>r. v = map Fin r"
proof (induction v)
  case Nil
  then show ?case by simp
next
  case (Cons x v)
  then obtain r where "v = map Fin r" by auto
  moreover obtain a where "x = Fin a"
    using Cons.prems by (cases x) auto
  ultimately have "x # v = map Fin (a # r)" by simp
  then show ?case by (rule exI)
qed

lemma finite_rows_repr: "finite_rows m \<Longrightarrow> \<exists>rm. m = map (map Fin) rm"
  unfolding finite_rows_def
proof (induction m)
  case Nil
  then show ?case by simp
next
  case (Cons v m)
  then obtain rm where "m = map (map Fin) rm" by auto
  moreover obtain r where "v = map Fin r"
    using Cons.prems finite_vec_repr by auto
  ultimately have "v # m = map (map Fin) (r # rm)" by simp
  then show ?case by (rule exI)
qed

lemma finite_rows_Fin: "finite_rows (map (map Fin) rm)"
  by (simp add: finite_rows_def list_all_iff)


lemma map2_lengths:
  "map length a = map length b \<Longrightarrow> map length (map2 (map2 f) a b) = map length a"
proof (induction a arbitrary: b)
  case Nil
  then show ?case by simp
next
  case (Cons r a)
  then show ?case by (cases b) auto
qed

lemma map2_finite:
  assumes "list_all is_fin u" "list_all is_fin v"
    and f: "\<And>x y. is_fin x \<Longrightarrow> is_fin y \<Longrightarrow> is_fin (f x y)"
  shows "list_all is_fin (map2 f u v)"
  unfolding list_all_iff
proof
  fix z
  assume "z \<in> set (map2 f u v)"
  then obtain x y where xy: "(x, y) \<in> set (zip u v)" and z: "z = f x y"
    by auto
  from xy have "x \<in> set u" "y \<in> set v"
    by (auto dest: set_zip_leftD set_zip_rightD)
  then show "is_fin z"
    using assms(1,2) f z by (simp add: list_all_iff)
qed

lemma sub_rows_finite:
  assumes "finite_rows a" "finite_rows b" "map length a = map length b"
  shows "\<exists>d. sub_rows a b = Inr d \<and> finite_rows d \<and> map length d = map length a"
proof -
  have "finite_rows (map2 vsub a b)"
    unfolding finite_rows_def list_all_iff
  proof
    fix row
    assume "row \<in> set (map2 vsub a b)"
    then obtain u v where uv: "(u, v) \<in> set (zip a b)" and row: "row = vsub u v"
      by auto
    from uv have "u \<in> set a" "v \<in> set b"
      by (auto dest: set_zip_leftD set_zip_rightD)
    then have "list_all is_fin u" "list_all is_fin v"
      using assms(1,2) by (simp_all add: finite_rows_def list_all_iff)
    then have "list_all is_fin (map2 fl_sub u v)"
      by (rule map2_finite) (rule is_fin_sub)
    then show "\<forall>x\<in>set row. is_fin x"
      by (simp add: row vsub_def list_all_iff)
  qed
  moreover have "map length (map2 vsub a b) = map length a"
    using map2_lengths [OF assms(3), of fl_sub] by (simp add: vsub_def [abs_def])
  ultimately show ?thesis
    using assms(3) by (simp add: sub_rows_def)
qed


lemma div_row_lengths:
  "length a = length g \<Longrightarrow>
   map length (map2 (\<lambda>row d. map (\<lambda>x. fl_div x d) row) a g) = map length a"
proof (induction a arbitrary: g)
  case Nil
  then show ?case by simp
next
  case (Cons r a)
  then show ?case by (cases g) auto
qed

lemma clamp_finite:
  "is_fin d \<Longrightarrow> is_fin (clamp_min clamp_eps d) \<and> clamp_min clamp_eps d \<noteq> Fin 0"
  using clamp_eps_pos by (cases d) (auto simp: max_def)

lemma safediv_finite:
  assumes "finite_rows a" "list_all is_fin b" "length a = length b"
  shows "\<exists>q. safediv a b = Inr q \<and> finite_rows q \<and> map length q = map length a"
proof -
  let ?g = "map (clamp_min clamp_eps) b"
  let ?q = "map2 (\<lambda>row d. map (\<lambda>x. fl_div x d) row) a ?g"
  have g: "is_fin d \<and> d \<noteq> Fin 0" if "d \<in> set ?g" for d
  proof -
    from that obtain e where "e \<in> set b" "d = clamp_min clamp_eps e"
      by auto
    then show ?thesis
      using assms(2) clamp_finite [of e] by (simp add: list_all_iff)
  qed
  have "finite_rows ?q"
    unfolding finite_rows_def list_all_iff
  proof (intro ballI)
    fix row x
    assume "row \<in> set ?q" and x: "x \<in> set row"
    then obtain r d where rd: "(r, d) \<in> set (zip a ?g)" and row: "row = map (\<lambda>x. fl_div x d) r"
      by auto
    from rd have r: "r \<in> set a" and d: "d \<in> set ?g"
      by (auto dest: set_zip_leftD set_zip_rightD)
    from x row obtain y where y: "y \<in> set r" and xy: "x = fl_div y d"
      by auto
    have "is_fin y"
      using r y assms(1) by (simp add: finite_rows_def list_all_iff)
    then show "is_fin x"
      unfolding xy using g [OF d] by (simp add: is_fin_div)
  qed
  moreover have "map length ?q = map length a"
    by (rule div_row_lengths) (simp add: assms(3))
  ultimately show ?thesis
    using assms(3) by (simp add: safediv_def div_rows_def)
qed


lemma cat1_finite:
  assumes "finite_rows a" "finite_rows b" "length a = length b"
    and "list_all (\<lambda>r. length r = n) a" "list_all (\<lambda>r. length r = n') b"
  shows "\<exists>c. cat1 a b = Inr c \<and> finite_rows c \<and> list_all (\<lambda>r. length r = n + n') c"
proof -
  have rows: "list_all is_fin row \<and> length row = n + n'" if "row \<in> set (map2 (@) a b)" for row
  proof -
    from that obtain u v where uv: "(u, v) \<in> set (zip a b)" and row: "row = u @ v"
      by auto
    from uv have "u \<in> set a" "v \<in> set b"
      by (auto dest: set_zip_leftD set_zip_rightD)
    then show ?thesis
      using assms(1,2,4,5) by (auto simp: row finite_rows_def list_all_iff)
  qed
  then have "finite_rows (map2 (@) a b)" "list_all (\<lambda>r. length r = n + n') (map2 (@) a b)"
    by (simp_all add: finite_rows_def list_all_iff)
  then show ?thesis
    using assms(3) by (simp add: cat1_def)
qed

lemma dot_finite:
  assumes "list_all is_fin u" "list_all is_fin v"
  shows "is_fin (dot u v)"
  unfolding dot_def
  by (rule is_fin_sum, rule map2_finite [OF assms]) (rule is_fin_mul)

lemma linear_vec_finite:
  assumes "finite_rows (weight W)" "list_all is_fin (bias W)" "list_all is_fin x"
  shows "list_all is_fin (linear_vec W x)"
  unfolding list_all_iff linear_vec_def
proof
  fix z
  assume "z \<in> set (map2 (\<lambda>row b. fl_add (dot x row) b) (weight W) (bias W))"
  then obtain row b where rb: "(row, b) \<in> set (zip (weight W) (bias W))"
    and z: "z = fl_add (dot x row) b"
    by auto
  from rb have "row \<in> set (weight W)" "b \<in> set (bias W)"
    by (auto dest: set_zip_leftD set_zip_rightD)
  then have "list_all is_fin row" "is_fin b"
    using assms(1,2) by (simp_all add: finite_rows_def list_all_iff)
  then show "is_fin z"
    unfolding z using assms(3) by (intro is_fin_add dot_finite)
qed

lemma linear_rows_finite:
  assumes "finite_rows (weight W)" "list_all is_fin (bias W)" "finite_rows c"
    and "list_all (\<lambda>x. length x = in_features W) c"
  shows "\<exists>y. linear_rows W c = Inr y \<and> finite_rows y"
proof -
  have "list_all is_fin (linear_vec W x)" if "x \<in> set c" for x
  proof (rule linear_vec_finite [OF assms(1,2)])
    show "list_all is_fin x"
      using that assms(3) by (simp add: finite_rows_def list_all_iff)
  qed
  then have "finite_rows (map (linear_vec W) c)"
    by (simp add: finite_rows_def list_all_iff)
  then show ?thesis
    using assms(4) by (simp add: linear_rows_def)
qed

lemma leaky_finite: "finite_rows y \<Longrightarrow> finite_rows (map (map leaky_relu) y)"
  by (simp add: finite_rows_def list_all_iff is_fin_leaky)


lemma l2_normalize_finite:
  assumes "finite_rows y"
  shows "\<exists>out. l2_normalize y = Inr out \<and> finite_rows out"
proof -
  obtain rm where "y = map (map Fin) rm"
    using finite_rows_repr [OF assms] by blast
  then have "l2_normalize y = Inr (map (map Fin) (map normalized rm))"
    by (simp only: l2_normalize_Fin)
  then show ?thesis
    using finite_rows_Fin by blast
qed

text \<open>
  The sampling layer returns a finite embedding for every batch of finite entries and
  finite weights, whatever the counts are, the count of a node with no neighbour
  included.
\<close>

lemma sampling_forward_finite:
  assumes fin: "finite_rows h" "finite_rows h_agg" "list_all is_fin w"
    and shape: "list_all (\<lambda>r. length r = F) h" "map length h_agg = map length h"
      "length w = length h"
    and W: "in_features W = F + F" "finite_rows (weight W)" "list_all is_fin (bias W)"
  shows "\<exists>out. GraphSageConvWithSampling_forward W
                  [''h'' \<mapsto> FloatT2 h, ''h_agg'' \<mapsto> FloatT2 h_agg, ''w'' \<mapsto> FloatT1 w]
               = Inr [(''h'', FloatT2 out)] \<and> finite_rows out"
proof -
  obtain d where d: "sub_rows h_agg h = Inr d" "finite_rows d" "map length d = map length h_agg"
    using sub_rows_finite [OF fin(2,1) shape(2)] by blast
  have w1: "list_all is_fin (map (\<lambda>x. fl_sub x (Fin 1)) w)"
    using fin(3) by (simp add: list_all_iff is_fin_sub)
  have ld: "length d = length (map (\<lambda>x. fl_sub x (Fin 1)) w)"
    using d(3) shape(2,3) by (metis length_map)
  obtain q where q: "safediv d (map (\<lambda>x. fl_sub x (Fin 1)) w) = Inr q" "finite_rows q"
      "map length q = map length d"
    using safediv_finite [OF d(2) w1 ld] by blast
  have cm: "corrected_mean h_agg h w = Inr q"
    using d(1) q(1) by (simp add: corrected_mean_def)
  have lq: "map length q = map length h"
    using q(3) d(3) shape(2) by simp
  then have lenq: "length h = length q"
    by (metis length_map)
  have rowsq: "list_all (\<lambda>r. length r = F) q"
  proof -
    have "set (map length q) = set (map length h)"
      using lq by simp
    then show ?thesis
      using shape(1) by (force simp: list_all_iff)
  qed
  obtain c where c: "cat1 h q = Inr c" "finite_rows c" "list_all (\<lambda>r. length r = F + F) c"
    using cat1_finite [OF fin(1) q(2) lenq shape(1) rowsq] by blast
  have "list_all (\<lambda>x. length x = in_features W) c"
    using c(3) W(1) by simp
  then obtain y where y: "linear_rows W c = Inr y" "finite_rows y"
    using linear_rows_finite [OF W(2,3) c(2)] by blast
  obtain out where out: "l2_normalize (map (map leaky_relu) y) = Inr out" "finite_rows out"
    using l2_normalize_finite [OF leaky_finite [OF y(2)]] by blast
  have "GraphSageConvWithSampling_forward W
          [''h'' \<mapsto> FloatT2 h, ''h_agg'' \<mapsto> FloatT2 h_agg, ''w'' \<mapsto> FloatT1 w]
        = Inr [(''h'', FloatT2 out)]"
    using cm c(1) y(1) out(1)
    by (simp add: GraphSageConvWithSampling_forward_def GraphSageConvWithSampling_update_def
          getitem_def as_matrix_def as_vector_def)
  then show ?thesis
    using out(2) by blast
qed

text \<open>A row whose norm is epsilon or more has Euclidean norm one after the step.\<close>

lemma l2norm_unit:
  assumes "clamp_eps \<le> sqrt (sumsq r)"
  shows "l2norm (map Fin (normalized r)) = Fin 1"
  using sumsq_normalized [OF assms] by (simp add: l2norm_Fin)

subsection \<open>The feature mixer\<close>

lemma mix_loop_unbound:
  "mix_loop None nd None extra = Inr x \<Longrightarrow> nd = []"
  by (cases nd) (auto split: dtype.splits)

lemma mix_embeddings_never: "\<exists>e. mix_embeddings None G emb_arg proj_arg = Inl e"
proof (cases "mix_loop None (ndata G) None []")
  case (Inl e)
  then show ?thesis by (simp add: mix_embeddings_def)
next
  case (Inr x)
  then have "ndata G = []" by (rule mix_loop_unbound)
  then show ?thesis
    using Inr by (simp add: mix_embeddings_def getitem_def)
qed

text \<open>
  C4.  The claim: after a pass of \<open>mix_embeddings\<close> every node embedding has the
  configured size, bags of words are averaged over their tokens, and all contributions
  are added to the identity embedding.  The body reads \<open>self.emb\<close> and \<open>self.proj\<close>
  where its parameters are \<open>emb\<close> and \<open>proj\<close>; with \<open>self\<close> unbound, as in the notebook,
  the pass raises NameError at the first integer or float feature, whatever tables
  are passed, and on no graph does it complete.
\<close>

theorem mix_embeddings_unbound_self:
  "mix_embeddings None
     \<lparr>number_of_nodes = 1,
      ndata = [(''age'', IntT1 [3]), (''h'', FloatT2 [[Fin 1, Fin 2]])]\<rparr>
     emb_arg proj_arg = Inl NameError
   \<and> (\<exists>e. mix_embeddings None G emb_arg proj_arg = Inl e)"
  using mix_embeddings_never [of G emb_arg proj_arg]
  by (simp add: mix_embeddings_def)

text \<open>So neither forward pass returns while \<open>self\<close> is unbound.\<close>

lemma forward_unbound_self:
  "(\<exists>e. fst (GraphSage_forward None ua mdl G) = Inl e)
   \<and> (\<exists>e. fst (GraphSageWithSampling_forward None ops mdl nf h_emb G) = Inl e)"
proof (cases "assign_embeddings mdl G")
  case (Inl e)
  then show ?thesis
    by (simp add: GraphSage_forward_def GraphSageWithSampling_forward_def
          final_layer_output_def)
next
  case (Inr G1)
  obtain e where "mix_embeddings None G1 (emb mdl) (proj mdl) = Inl e"
    using mix_embeddings_never by blast
  then show ?thesis
    using Inr
    by (simp add: GraphSage_forward_def GraphSageWithSampling_forward_def
          final_layer_output_def)
qed

subsection \<open>Padding in the embedding tables\<close>










subsection \<open>The forward passes\<close>

lemma fl_ne_self: "fl_ne x x = is_nan x"
  by (cases x) simp_all

lemma count_ne_self_zero: "(count_ne_self v = 0) = (\<not> list_ex is_nan v)"
  by (induction v) (auto simp: count_ne_self_def fl_ne_self)

lemma list_ex_concat: "list_ex P (concat m) = list_ex (list_ex P) m"
  by (induction m) (auto simp: list_ex_iff)

lemma ne_self_sum_zero: "(ne_self_sum t = 0) = (\<not> has_nan t)"
  by (cases t) (simp_all add: count_ne_self_zero list_ex_concat)

text \<open>
  C7.  Whenever \<open>GraphSageWithSampling.forward\<close> gets as far as reading the output of
  the last layer, it returns that output if no entry is not-a-number, and raises
  AssertionError if one is: a tensor with such an entry is never returned.
\<close>

theorem forward_asserts_no_nan:
  assumes "fst (final_layer_output global_self ops mdl nf h_emb G) = Inr result"
  shows "fst (GraphSageWithSampling_forward global_self ops mdl nf h_emb G)
           = (if has_nan result then Inl AssertionError else Inr result)"
  using assms
  by (cases "final_layer_output global_self ops mdl nf h_emb G")
     (simp add: GraphSageWithSampling_forward_def ne_self_sum_zero)

text \<open>
  A run that reaches the assertion: one node, no layers, a NodeFlow whose last layer
  holds a not-a-number.
\<close>

lemma final_layer_output_example:
  "final_layer_output
      (Some \<lparr>emb = Map.empty,
           proj = [''h'' \<mapsto> nn_Linear \<lparr>in_features = 1, weight = [[Fin 1]], bias = [Fin 0]\<rparr>,
                   ''one'' \<mapsto> (\<lambda>t. Inr (FloatT2 [[Fin 0]]))]\<rparr>)
      \<lparr>copy_from_parent = (\<lambda>G nf. Inr nf), num_blocks = (\<lambda>nf. 0),
       block_compute = (\<lambda>i f nf. Inr nf), last_layer_h = (\<lambda>nf. Inr (FloatT2 [[NaN]]))\<rparr>
      \<lparr>emb = Map.empty, proj = Map.empty, feature_size = 1, num_layers = 0, convs = [],
       node_emb = [[Fin 1]]\<rparr>
      () (FloatT2 []) \<lparr>number_of_nodes = 1, ndata = []\<rparr>
   = (Inr (FloatT2 [[NaN]]),
      \<lparr>number_of_nodes = 1, ndata = [(''h'', FloatT2 [[Fin 2]]), (''one'', FloatT1 [Fin 1])]\<rparr>)"
  by (simp add: final_layer_output_def assign_embeddings_def mix_embeddings_def getitem_def
      in_table_def row_of_def linear_rows_def linear_vec_def dot_def fl_sum_def vadd_def
      brows_def bvec_def broadcast2_def as_float2_def)

theorem forward_asserts_no_nan_witness:
  "fst (GraphSageWithSampling_forward
      (Some \<lparr>emb = Map.empty,
           proj = [''h'' \<mapsto> nn_Linear \<lparr>in_features = 1, weight = [[Fin 1]], bias = [Fin 0]\<rparr>,
                   ''one'' \<mapsto> (\<lambda>t. Inr (FloatT2 [[Fin 0]]))]\<rparr>)
      \<lparr>copy_from_parent = (\<lambda>G nf. Inr nf), num_blocks = (\<lambda>nf. 0),
       block_compute = (\<lambda>i f nf. Inr nf), last_layer_h = (\<lambda>nf. Inr (FloatT2 [[NaN]]))\<rparr>
      \<lparr>emb = Map.empty, proj = Map.empty, feature_size = 1, num_layers = 0, convs = [],
       node_emb = [[Fin 1]]\<rparr>
      () (FloatT2 []) \<lparr>number_of_nodes = 1, ndata = []\<rparr>)
   = Inl AssertionError"
proof -
  have pre: "fst (final_layer_output
      (Some \<lparr>emb = Map.empty,
           proj = [''h'' \<mapsto> nn_Linear \<lparr>in_features = 1, weight = [[Fin 1]], bias = [Fin 0]\<rparr>,
                   ''one'' \<mapsto> (\<lambda>t. Inr (FloatT2 [[Fin 0]]))]\<rparr>)
      \<lparr>copy_from_parent = (\<lambda>G nf. Inr nf), num_blocks = (\<lambda>nf. 0),
       block_compute = (\<lambda>i f nf. Inr nf), last_layer_h = (\<lambda>nf. Inr (FloatT2 [[NaN]]))\<rparr>
      \<lparr>emb = Map.empty, proj = Map.empty, feature_size = 1, num_layers = 0, convs = [],
       node_emb = [[Fin 1]]\<rparr>
      () (FloatT2 []) \<lparr>number_of_nodes = 1, ndata = []\<rparr>) = Inr (FloatT2 [[NaN]])"
    by (simp only: final_layer_output_example fst_conv)
  show ?thesis
    using forward_asserts_no_nan [OF pre] by simp
qed





























subsection \<open>Training loop\<close>

lemma epoch_body_seeds:
  assumes "epoch_body rng v src dst n = Inr (v', seeds)"
  shows "\<exists>sb db. tensor_split src n = Inr sb \<and> tensor_split dst n = Inr db
           \<and> seeds = concat (map (\<lambda>(s, d). [s, d]) (zip sb db))"
  using assms by (auto simp: epoch_body_def split: sum.splits)

text \<open>
  C6.  The claim: in every epoch the training edges are shuffled, the shuffled endpoints
  are cut into fixed-size batches and the source and destination batches alternate as
  seed batches.  The loop body does draw a permutation and index both endpoint tensors
  with it, but the batches come from the unshuffled tensors.  With edges
  \<open>1\<rightarrow>4, 2\<rightarrow>5, 3\<rightarrow>6\<close>, batch size 2 and the permutation \<open>[2, 0, 1]\<close> the shuffled
  endpoints are \<open>[3, 1, 2]\<close> and \<open>[6, 4, 5]\<close>, yet the seed batches are those of the
  original order; and in the notebook as it stands, where nothing binds \<open>shuffle_idx\<close>
  before the loop, the first epoch raises NameError.
\<close>

theorem epoch_body_seeds_unshuffled:
  "epoch_body (\<lambda>n. [2, 0, 1]) (Some (PyInt 3)) [1, 2, 3] [4, 5, 6] 2
     = Inr (Some (PyTensor [2, 0, 1]), [[1, 2], [4, 5], [3], [6]])
   \<and> index_select [1, 2, 3 :: nat] [2, 0, 1] = Inr [3, 1, 2]
   \<and> index_select [4, 5, 6 :: nat] [2, 0, 1] = Inr [6, 4, 5]
   \<and> epoch_body (\<lambda>n. [2, 0, 1]) None [1, 2, 3] [4, 5, 6] 2 = Inl NameError"
  by code_simp

end
